theory Spec2Isabelle
  imports Complex_Main
begin

section \<open>Python values the bot works with\<close>

text \<open>
  Text is modelled as \<open>string\<close>, each \<open>char\<close> read as one code point below 256, so that
  \<open>length\<close> and \<open>take\<close> count what Python's \<open>len\<close> and slicing count on such text.

  A naive \<open>datetime\<close> is modelled as the number of microseconds since midnight of day 0
  of the proleptic calendar. On naive values Python's comparison, \<open>timedelta\<close>
  subtraction and \<open>.date()\<close> are exactly the linear order, subtraction and division by
  the length of a day of this count. \<open>isoformat\<close> followed by \<open>fromisoformat\<close> is the
  identity on such values, so the \<open>date\<close> entry of a record holds the datetime itself.
\<close>

type_synonym datetime = int

definition day_us :: int where
  "day_us = 86400000000"

definition date_of :: "datetime \<Rightarrow> int" where
  "date_of t = t div day_us"

definition timedelta_days :: "int \<Rightarrow> int" where
  "timedelta_days n = n * day_us"

text \<open>
  The result of Python's \<open>float(s)\<close>. A finite value is kept as the exact decimal the
  text denotes: rounding to binary64 is not modelled. Rounding is monotone and keeps
  the sign, so whether a value is negative is read off the exact decimal.
\<close>

datatype pyfloat = Finite rat | PosInf | NegInf | NaN

fun nonneg :: "pyfloat \<Rightarrow> bool" where
  "nonneg (Finite q) = (0 \<le> q)"
| "nonneg PosInf = True"
| "nonneg NegInf = False"
| "nonneg NaN = False"

text \<open>
  What \<open>float\<close> strips from both ends of its text: the space, the characters 0x09 to
  0x0D and, of the code points from 128 on, the spaces 0x85 and 0xA0. The separators 0x1C
  to 0x1F are not stripped.
\<close>

definition is_space :: "char \<Rightarrow> bool" where
  "is_space c = (c = CHR '' '' \<or> c = CHR 0x09 \<or> c = CHR 0x0A \<or> c = CHR 0x0B \<or> c = CHR 0x0C
      \<or> c = CHR 0x0D \<or> c = CHR 0x85 \<or> c = CHR 0xA0)"

definition is_digit :: "char \<Rightarrow> bool" where
  "is_digit c = (48 \<le> (of_char c :: nat) \<and> (of_char c :: nat) \<le> 57)"

definition strip :: "string \<Rightarrow> string" where
  "strip s = rev (dropWhile is_space (rev (dropWhile is_space s)))"

text \<open>
  An underscore is allowed between two digits only; \<open>prev\<close> is the character before
  the one looked at, \<open>None\<close> at the start.
\<close>

fun drop_underscores :: "char option \<Rightarrow> string \<Rightarrow> string option" where
  "drop_underscores prev [] = (if prev = Some CHR ''_'' then None else Some [])"
| "drop_underscores prev (c # cs) =
     (if c = CHR ''_'' then
        (case prev of
           None \<Rightarrow> None
         | Some p \<Rightarrow> if is_digit p then drop_underscores (Some c) cs else None)
      else if prev = Some CHR ''_'' \<and> \<not> is_digit c then None
      else map_option ((#) c) (drop_underscores (Some c) cs))"

fun split_sign :: "string \<Rightarrow> bool \<times> string" where
  "split_sign [] = (False, [])"
| "split_sign (c # cs) =
     (if c = CHR ''-'' then (True, cs)
      else if c = CHR ''+'' then (False, cs)
      else (False, c # cs))"

definition lower :: "char \<Rightarrow> char" where
  "lower c = (if 65 \<le> (of_char c :: nat) \<and> (of_char c :: nat) \<le> 90
              then char_of ((of_char c :: nat) + 32) else c)"

definition digit_val :: "char \<Rightarrow> nat" where
  "digit_val c = of_char c - 48"

definition digits_val :: "string \<Rightarrow> nat" where
  "digits_val ds = foldl (\<lambda>a c. 10 * a + digit_val c) 0 ds"

definition scale10 :: "rat \<Rightarrow> int \<Rightarrow> rat" where
  "scale10 m e = (if 0 \<le> e then m * 10 ^ nat e else m / 10 ^ nat (- e))"

text \<open>
  The exponent part: empty, or \<open>e\<close>/\<open>E\<close>, an optional sign and at least one digit up
  to the end of the text.
\<close>

definition parse_exponent :: "string \<Rightarrow> int option" where
  "parse_exponent s =
     (case s of
        [] \<Rightarrow> Some 0
      | c # cs \<Rightarrow>
          if c = CHR ''e'' \<or> c = CHR ''E'' then
            (case split_sign cs of
               (neg, ds) \<Rightarrow>
                 if ds \<noteq> [] \<and> list_all is_digit ds
                 then Some (if neg then - int (digits_val ds) else int (digits_val ds))
                 else None)
          else None)"

definition parse_number :: "string \<Rightarrow> rat option" where
  "parse_number s =
     (let ip = takeWhile is_digit s;
          r1 = dropWhile is_digit s;
          fp = (case r1 of [] \<Rightarrow> [] | c # cs \<Rightarrow> if c = CHR ''.'' then takeWhile is_digit cs else []);
          r2 = (case r1 of [] \<Rightarrow> [] | c # cs \<Rightarrow> if c = CHR ''.'' then dropWhile is_digit cs else r1)
      in if ip = [] \<and> fp = [] then None
         else (case parse_exponent r2 of
                 None \<Rightarrow> None
               | Some e \<Rightarrow> Some (scale10 (of_nat (digits_val (ip @ fp))) (e - int (length fp)))))"

definition parse_unsigned :: "bool \<Rightarrow> string \<Rightarrow> pyfloat option" where
  "parse_unsigned neg s =
     (if map lower s = ''inf'' \<or> map lower s = ''infinity'' then Some (if neg then NegInf else PosInf)
      else if map lower s = ''nan'' then Some NaN
      else map_option (\<lambda>q. Finite (if neg then - q else q)) (parse_number s))"

text \<open>\<open>py_float s\<close> is \<open>float(s)\<close>: \<open>None\<close> where Python raises \<open>ValueError\<close>.\<close>

definition py_float :: "string \<Rightarrow> pyfloat option" where
  "py_float s =
     (case drop_underscores None (strip s) of
        None \<Rightarrow> None
      | Some t \<Rightarrow> (case split_sign t of (neg, body) \<Rightarrow> parse_unsigned neg body))"

text \<open>\<open>text.replace(',', '.')\<close>: every comma becomes a point.\<close>

definition replace_comma :: "string \<Rightarrow> string" where
  "replace_comma s = map (\<lambda>c. if c = CHR '','' then CHR ''.'' else c) s"

section \<open>Data model\<close>

text \<open>
  The dictionary \<open>update_data\<close> has a fixed set of keys, written one at a time; an
  absent key is \<open>None\<close>. The key \<open>function\<close> is named \<open>function_key\<close> here.
\<close>

record update_data =
  name :: "string option"
  function_key :: "string option"
  company :: "string option"
  location :: "string option"
  hours_worked :: "pyfloat option"
  update_text :: "string option"
  planning :: "string option"
  photo_id :: "string option"
  date :: "datetime option"

text \<open>The states of the conversation; \<open>END\<close> is \<open>ConversationHandler.END\<close>.\<close>

datatype conv = NAME | FUNCTION | COMPANY | LOCATION | HOURS_WORKED | UPDATE_TEXT | PLANNING
  | PHOTO | END

text \<open>
  An incoming message. \<open>Text t\<close> is a message with text \<open>t\<close> that is not a bot command,
  \<open>Command c\<close> a message that starts with the bot command \<open>c\<close> (as \<open>CommandHandler\<close>
  compares it), \<open>Photo ids\<close> a message whose \<open>photo\<close> list holds the sizes with these
  file ids, \<open>Other\<close> any other message.
\<close>

datatype update = Text string | Command string | Photo "string list" | Other

datatype error = KeyError | IndexError | TypeError

datatype media = InputMediaPhoto string string

text \<open>
  What a handler does to the outside, in order: a plain reply, a reply with
  \<open>parse_mode="Markdown"\<close>, the call of the generative model with a prompt, a line on
  the error log, one \<open>send_media_group\<close> call, and an exception that leaves the handler.
\<close>

datatype event = ReplyText string | ReplyMarkdown string | GenerateContent string
  | LogError string | SendMediaGroup "media list" | Unhandled error

text \<open>
  One user's view of the bot: the state \<open>ConversationHandler\<close> keeps for the
  conversation, the entry \<open>update_data\<close> of \<open>context.user_data\<close> (\<open>None\<close> when the
  key is absent) and the global list \<open>db["updates"]\<close>.
\<close>

record bot =
  state :: conv
  user_data :: "update_data option"
  db :: "update_data list"

section \<open>The update logging conversation\<close>

text \<open>
  A handler takes the bot and returns the bot it leaves behind, with the state it returns
  in \<open>state\<close>, and the replies it sends; \<open>Inl\<close> is the exception that leaves it.
  Subscripting \<open>context.user_data["update_data"]\<close> when the key is absent raises
  \<open>KeyError\<close>. Sending a reply is taken to succeed. The reply markup of \<open>cancel\<close> is
  not part of the model.
\<close>

definition start_update :: "bot \<Rightarrow> error + bot \<times> event list" where
  "start_update b =
     Inr (b\<lparr>state := NAME\<rparr>,
          [ReplyText ''Let's log a new update. First, what is your full name?''])"

definition get_name :: "string \<Rightarrow> bot \<Rightarrow> error + bot \<times> event list" where
  "get_name txt b =
     Inr (b\<lparr>state := FUNCTION,
             user_data := Some \<lparr>name = Some txt, function_key = None, company = None,
               location = None, hours_worked = None, update_text = None, planning = None,
               photo_id = None, date = None\<rparr>\<rparr>,
          [ReplyText ''Got it. What is your function or role? (e.g., Electrician, Plumber)''])"

definition get_function :: "string \<Rightarrow> bot \<Rightarrow> error + bot \<times> event list" where
  "get_function txt b =
     (case user_data b of
        None \<Rightarrow> Inl KeyError
      | Some u \<Rightarrow>
          Inr (b\<lparr>state := COMPANY, user_data := Some (u\<lparr>function_key := Some txt\<rparr>)\<rparr>,
               [ReplyText ''Great. What company do you work for?'']))"

definition get_company :: "string \<Rightarrow> bot \<Rightarrow> error + bot \<times> event list" where
  "get_company txt b =
     (case user_data b of
        None \<Rightarrow> Inl KeyError
      | Some u \<Rightarrow>
          Inr (b\<lparr>state := LOCATION, user_data := Some (u\<lparr>company := Some txt\<rparr>)\<rparr>,
               [ReplyText ''Where on the site did you work today? (e.g., Second Floor, West Wing)'']))"

definition get_location :: "string \<Rightarrow> bot \<Rightarrow> error + bot \<times> event list" where
  "get_location txt b =
     (case user_data b of
        None \<Rightarrow> Inl KeyError
      | Some u \<Rightarrow>
          Inr (b\<lparr>state := HOURS_WORKED, user_data := Some (u\<lparr>location := Some txt\<rparr>)\<rparr>,
               [ReplyText ''How many hours did you work?'']))"

text \<open>
  \<open>float\<close> runs first: its \<open>ValueError\<close> is caught and answered with the second prompt,
  a \<open>KeyError\<close> of the assignment after it is not caught.
\<close>

definition get_hours :: "string \<Rightarrow> bot \<Rightarrow> error + bot \<times> event list" where
  "get_hours txt b =
     (case py_float (replace_comma txt) of
        None \<Rightarrow>
          Inr (b\<lparr>state := HOURS_WORKED\<rparr>,
               [ReplyText ''That doesn't look like a valid number. Please enter the hours again.''])
      | Some hours \<Rightarrow>
          (case user_data b of
             None \<Rightarrow> Inl KeyError
           | Some u \<Rightarrow>
               Inr (b\<lparr>state := UPDATE_TEXT, user_data := Some (u\<lparr>hours_worked := Some hours\<rparr>)\<rparr>,
                    [ReplyText ''Thanks. Please describe the work you completed today.''])))"

definition get_update_text :: "string \<Rightarrow> bot \<Rightarrow> error + bot \<times> event list" where
  "get_update_text txt b =
     (case user_data b of
        None \<Rightarrow> Inl KeyError
      | Some u \<Rightarrow>
          Inr (b\<lparr>state := PLANNING, user_data := Some (u\<lparr>update_text := Some txt\<rparr>)\<rparr>,
               [ReplyText ''Any notes on planning? (e.g., 'Blocked by other team', 'Ready for inspection')'']))"

definition get_planning :: "string \<Rightarrow> bot \<Rightarrow> error + bot \<times> event list" where
  "get_planning txt b =
     (case user_data b of
        None \<Rightarrow> Inl KeyError
      | Some u \<Rightarrow>
          Inr (b\<lparr>state := PHOTO, user_data := Some (u\<lparr>planning := Some txt\<rparr>)\<rparr>,
               [ReplyText ''Perfect. Now, please send one photo of your work.'']))"

text \<open>
  \<open>photo[-1]\<close> is the last size of the message; the file fetched for it carries the
  same \<open>file_id\<close>. \<open>now\<close> is what \<open>datetime.now()\<close> returns in this call.
\<close>

definition get_photo :: "datetime \<Rightarrow> string list \<Rightarrow> bot \<Rightarrow> error + bot \<times> event list" where
  "get_photo now ids b =
     (if ids = [] then Inl IndexError
      else (case user_data b of
              None \<Rightarrow> Inl KeyError
            | Some u \<Rightarrow>
                Inr (\<lparr>state = END, user_data = None,
                      db = db b @ [u\<lparr>photo_id := Some (last ids), date := Some now\<rparr>]\<rparr>,
                     [ReplyText (''Thank you! Your update has been logged successfully. '' @
                        ''Use /daily_report or /weekly_report to see the summary.'')])))"

definition cancel :: "bot \<Rightarrow> error + bot \<times> event list" where
  "cancel b =
     Inr (b\<lparr>state := END, user_data := None\<rparr>,
          [ReplyText ''Update cancelled. You can start a new one with /update.''])"

subsection \<open>The conversation handler\<close>

text \<open>\<open>filters.TEXT & ~filters.COMMAND\<close> and \<open>filters.PHOTO\<close>.\<close>

definition text_filter :: "update \<Rightarrow> string option" where
  "text_filter upd = (case upd of Text t \<Rightarrow> if t \<noteq> [] then Some t else None | _ \<Rightarrow> None)"

definition photo_filter :: "update \<Rightarrow> string list option" where
  "photo_filter upd = (case upd of Photo ids \<Rightarrow> if ids \<noteq> [] then Some ids else None | _ \<Rightarrow> None)"

definition command_filter :: "string \<Rightarrow> update \<Rightarrow> bool" where
  "command_filter c upd = (case upd of Command d \<Rightarrow> d = c | _ \<Rightarrow> False)"

text \<open>The table \<open>states\<close>: the handler of the current state, if the message passes its filter.\<close>

definition states :: "datetime \<Rightarrow> update \<Rightarrow> bot \<Rightarrow> (error + bot \<times> event list) option" where
  "states now upd b =
     (case state b of
        NAME \<Rightarrow> map_option (\<lambda>t. get_name t b) (text_filter upd)
      | FUNCTION \<Rightarrow> map_option (\<lambda>t. get_function t b) (text_filter upd)
      | COMPANY \<Rightarrow> map_option (\<lambda>t. get_company t b) (text_filter upd)
      | LOCATION \<Rightarrow> map_option (\<lambda>t. get_location t b) (text_filter upd)
      | HOURS_WORKED \<Rightarrow> map_option (\<lambda>t. get_hours t b) (text_filter upd)
      | UPDATE_TEXT \<Rightarrow> map_option (\<lambda>t. get_update_text t b) (text_filter upd)
      | PLANNING \<Rightarrow> map_option (\<lambda>t. get_planning t b) (text_filter upd)
      | PHOTO \<Rightarrow> map_option (\<lambda>ids. get_photo now ids b) (photo_filter upd)
      | END \<Rightarrow> None)"

definition entry_points :: "update \<Rightarrow> bot \<Rightarrow> (error + bot \<times> event list) option" where
  "entry_points upd b = (if command_filter ''update'' upd then Some (start_update b) else None)"

definition fallbacks :: "update \<Rightarrow> bot \<Rightarrow> (error + bot \<times> event list) option" where
  "fallbacks upd b = (if command_filter ''cancel'' upd then Some (cancel b) else None)"

text \<open>
  With no conversation running only the entry points are tried; in a running one the
  handler of the state, then the fallbacks. \<open>None\<close>: no handler takes the message.
\<close>

definition conversation_handler ::
  "datetime \<Rightarrow> update \<Rightarrow> bot \<Rightarrow> (error + bot \<times> event list) option" where
  "conversation_handler now upd b =
     (if state b = END then entry_points upd b
      else (case states now upd b of
              Some r \<Rightarrow> Some r
            | None \<Rightarrow> fallbacks upd b))"

text \<open>
  One message: a message no handler takes changes nothing; an exception leaves the
  conversation where it was (every handler raises before it writes or replies).
\<close>

definition handle_update :: "datetime \<Rightarrow> update \<Rightarrow> bot \<Rightarrow> bot \<times> event list" where
  "handle_update now upd b =
     (case conversation_handler now upd b of
        None \<Rightarrow> (b, [])
      | Some (Inl e) \<Rightarrow> (b, [Unhandled e])
      | Some (Inr r) \<Rightarrow> r)"

text \<open>
  A run over the messages of one user, each with the clock reading at its arrival:
  \<open>run\<close> is the bot at the end, \<open>trace\<close> the bot and the events after each message.
\<close>

fun run :: "(datetime \<times> update) list \<Rightarrow> bot \<Rightarrow> bot" where
  "run [] b = b"
| "run (i # ins) b = run ins (fst (handle_update (fst i) (snd i) b))"

fun trace :: "(datetime \<times> update) list \<Rightarrow> bot \<Rightarrow> (bot \<times> event list) list" where
  "trace [] b = []"
| "trace (i # ins) b =
     handle_update (fst i) (snd i) b # trace ins (fst (handle_update (fst i) (snd i) b))"

section \<open>Report generation\<close>

text \<open>
  The list comprehensions of \<open>daily_report\<close> and \<open>weekly_report\<close>: the records whose
  \<open>date\<close> satisfies the test, in the order of the store; \<open>u["date"]\<close> raises
  \<open>KeyError\<close> at the first record without the key.
\<close>

fun select_updates :: "(datetime \<Rightarrow> bool) \<Rightarrow> update_data list \<Rightarrow> error + update_data list" where
  "select_updates p [] = Inr []"
| "select_updates p (u # us) =
     (case date u of
        None \<Rightarrow> Inl KeyError
      | Some d \<Rightarrow>
          (case select_updates p us of
             Inl e \<Rightarrow> Inl e
           | Inr r \<Rightarrow> Inr (if p d then u # r else r)))"

definition todays_updates :: "datetime \<Rightarrow> update_data list \<Rightarrow> error + update_data list" where
  "todays_updates now us = select_updates (\<lambda>d. date_of d = date_of now) us"

definition weekly_updates :: "datetime \<Rightarrow> update_data list \<Rightarrow> error + update_data list" where
  "weekly_updates now us = select_updates (\<lambda>d. now - timedelta_days 7 \<le> d) us"

subsection \<open>The prompt\<close>

definition nl :: string where
  "nl = [CHR 0x0A]"

fun str_nat :: "nat \<Rightarrow> string" where
  "str_nat n = (if n < 10 then [char_of (48 + n)] else str_nat (n div 10) @ [char_of (48 + n mod 10)])"

definition get_or_na :: "string option \<Rightarrow> string" where
  "get_or_na v = (case v of None \<Rightarrow> ''N/A'' | Some s \<Rightarrow> s)"

text \<open>
  One block of the prompt; \<open>i\<close> counts from 1. How Python prints a float is not
  modelled: \<open>str_float\<close> stands for it.
\<close>

definition update_block :: "(pyfloat \<Rightarrow> string) \<Rightarrow> nat \<Rightarrow> update_data \<Rightarrow> string" where
  "update_block str_float i u =
     ''Update '' @ str_nat i @ '':'' @ nl @
     ''- Name: '' @ get_or_na (name u) @ nl @
     ''- Function: '' @ get_or_na (function_key u) @ nl @
     ''- Company: '' @ get_or_na (company u) @ nl @
     ''- Location: '' @ get_or_na (location u) @ nl @
     ''- Hours Worked: '' @ get_or_na (map_option str_float (hours_worked u)) @ nl @
     ''- Task Description: '' @ get_or_na (update_text u) @ nl @
     ''- Planning Notes: '' @ get_or_na (planning u) @ nl @
     ''- A photo was submitted for this update (ID: '' @ get_or_na (photo_id u) @ '').'' @ nl @ nl"

fun update_blocks :: "(pyfloat \<Rightarrow> string) \<Rightarrow> nat \<Rightarrow> update_data list \<Rightarrow> string" where
  "update_blocks str_float i [] = []"
| "update_blocks str_float i (u # us) = update_block str_float i u @ update_blocks str_float (Suc i) us"

definition build_prompt :: "(pyfloat \<Rightarrow> string) \<Rightarrow> update_data list \<Rightarrow> string \<Rightarrow> string" where
  "build_prompt str_float updates_data report_type =
     ''You are BouwBuddy AI, an expert construction project manager. '' @
     ''You will be given a series of raw '' @ map lower report_type @
     '' progress updates from a construction team. '' @
     ''Your task is to analyze all the updates and generate three distinct, professional reports in English.'' @ nl @ nl @
     ''Here are the raw updates:'' @ nl @
     ''-------------------------'' @ nl @
     update_blocks str_float 1 updates_data @
     ''-------------------------'' @ nl @
     ''Based on ALL the information above, please generate the following reports. Be concise and professional.'' @ nl @ nl @
     ''1.  **Hours by Company:** Calculate the total hours worked for each company and list them.'' @ nl @ nl @
     ''2.  **Technical Supervisor's Report:** Synthesize all updates into a technical summary. Mention specific tasks, progress, locations, and any potential blockers or delays mentioned in the planning notes. Refer to photos as evidence where relevant (e.g., '...as documented in the photo from [Name]').'' @ nl @ nl @
     ''3.  **Non-Technical Client Update:** Create a friendly, high-level summary for the client. Avoid technical jargon. Focus on visible progress and milestones. Be positive and reassuring.''"

subsection \<open>Photos\<close>

definition caption_of :: "string \<Rightarrow> string \<Rightarrow> string \<Rightarrow> string" where
  "caption_of n c t = n @ '' ('' @ c @ '') - '' @ t"

text \<open>
  The call \<open>InputMediaPhoto(media_id=..., caption=...)\<close>. The constructor of the
  library names its first parameter \<open>media\<close> and has no parameter \<open>media_id\<close>, so
  the call raises \<open>TypeError\<close> whatever its arguments and no item is built.
\<close>

definition input_media_photo :: "string \<Rightarrow> string \<Rightarrow> error + media" where
  "input_media_photo media_id caption = Inl TypeError"

text \<open>
  The loop that fills \<open>media_group\<close>: a record without \<open>photo_id\<close> is passed over; for
  one with it the caption is formatted from \<open>name\<close>, \<open>company\<close> and \<open>update_text\<close>
  (\<open>KeyError\<close> when one is absent), cut to 1024 characters and handed to the constructor,
  and the item is appended before the next record is looked at.
\<close>

fun media_group_of :: "update_data list \<Rightarrow> error + media list" where
  "media_group_of [] = Inr []"
| "media_group_of (u # us) =
     (case photo_id u of
        None \<Rightarrow> media_group_of us
      | Some pid \<Rightarrow>
          (case (name u, company u, update_text u) of
             (Some n, Some c, Some t) \<Rightarrow>
               (case input_media_photo pid (take 1024 (caption_of n c t)) of
                  Inl e \<Rightarrow> Inl e
                | Inr m \<Rightarrow>
                    (case media_group_of us of
                       Inl e \<Rightarrow> Inl e
                     | Inr ms \<Rightarrow> Inr (m # ms)))
           | _ \<Rightarrow> Inl KeyError))"

text \<open>\<open>for i in range(0, len(media_group), 10)\<close>, from the index \<open>i\<close> on.\<close>

function send_chunks :: "nat \<Rightarrow> media list \<Rightarrow> media list list" where
  "send_chunks i mg =
     (if i < length mg then take 10 (drop i mg) # send_chunks (i + 10) mg else [])"
  by pat_completeness auto
termination
  by (relation "measure (\<lambda>(i, mg). length mg - i)") auto

declare send_chunks.simps [simp del]

definition send_photos :: "update_data list \<Rightarrow> event list" where
  "send_photos updates_data =
     (if updates_data \<noteq> [] then
        ReplyMarkdown ''*Submitted Photos for this period:*'' #
        (case media_group_of updates_data of
           Inl e \<Rightarrow> [Unhandled e]
         | Inr media_group \<Rightarrow>
             if media_group \<noteq> [] then map SendMediaGroup (send_chunks 0 media_group)
             else [ReplyText ''No photos were submitted in this period.''])
      else [])"

subsection \<open>The report handlers\<close>

text \<open>
  \<open>generate\<close> stands for the call of the generative model and the reading of
  \<open>response.text\<close>: \<open>Inr\<close> the text, \<open>Inl\<close> the message of the exception either of them
  raises. Sending a reply or a media group is taken to succeed.
\<close>

definition generate_and_send_report ::
  "(string \<Rightarrow> string + string) \<Rightarrow> (pyfloat \<Rightarrow> string) \<Rightarrow> update_data list \<Rightarrow> string \<Rightarrow> event list" where
  "generate_and_send_report generate str_float updates_data report_type =
     ReplyText (''Generating the '' @ report_type @
        '' Report... The AI is thinking, this may take a moment.'') #
     GenerateContent (build_prompt str_float updates_data report_type) #
     (case generate (build_prompt str_float updates_data report_type) of
        Inl e \<Rightarrow>
          [LogError (''Error generating AI report: '' @ e),
           ReplyText ''Sorry, there was an error while generating the AI report. Please try again later.'']
      | Inr ai_report \<Rightarrow>
          ReplyMarkdown (''--- *'' @ report_type @ '' Report* ---'') #
          ReplyMarkdown ai_report #
          send_photos updates_data)"

text \<open>
  The two commands read the store and leave the bot as it is; the bot is returned to
  say so.
\<close>

definition daily_report ::
  "(string \<Rightarrow> string + string) \<Rightarrow> (pyfloat \<Rightarrow> string) \<Rightarrow> datetime \<Rightarrow> bot \<Rightarrow> bot \<times> event list" where
  "daily_report generate str_float now b =
     (case todays_updates now (db b) of
        Inl e \<Rightarrow> (b, [Unhandled e])
      | Inr us \<Rightarrow>
          if us = [] then (b, [ReplyText ''No updates were logged today. Nothing to report.''])
          else (b, generate_and_send_report generate str_float us ''Daily''))"

definition weekly_report ::
  "(string \<Rightarrow> string + string) \<Rightarrow> (pyfloat \<Rightarrow> string) \<Rightarrow> datetime \<Rightarrow> bot \<Rightarrow> bot \<times> event list" where
  "weekly_report generate str_float now b =
     (case weekly_updates now (db b) of
        Inl e \<Rightarrow> (b, [Unhandled e])
      | Inr us \<Rightarrow>
          if us = [] then (b, [ReplyText ''No updates were logged in the last 7 days.''])
          else (b, generate_and_send_report generate str_float us ''Weekly''))"

section \<open>Predicates used in the statements\<close>

text \<open>What the specification asks of a committed record, the sign of the hours left out.\<close>

fun nonempty :: "string option \<Rightarrow> bool" where
  "nonempty None = False"
| "nonempty (Some s) = (s \<noteq> [])"

definition parsed_hours :: "pyfloat option \<Rightarrow> bool" where
  "parsed_hours v = (\<exists>s. s \<noteq> [] \<and> v = py_float (replace_comma s) \<and> v \<noteq> None)"

definition committed_ok :: "update_data \<Rightarrow> bool" where
  "committed_ok u =
     (nonempty (name u) \<and> nonempty (function_key u) \<and> nonempty (company u)
      \<and> nonempty (location u) \<and> parsed_hours (hours_worked u) \<and> nonempty (update_text u)
      \<and> nonempty (planning u) \<and> photo_id u \<noteq> None \<and> date u \<noteq> None)"

text \<open>How many answers a state has behind it, and what the partial record then holds.\<close>

fun stage :: "conv \<Rightarrow> nat" where
  "stage NAME = 0"
| "stage FUNCTION = 1"
| "stage COMPANY = 2"
| "stage LOCATION = 3"
| "stage HOURS_WORKED = 4"
| "stage UPDATE_TEXT = 5"
| "stage PLANNING = 6"
| "stage PHOTO = 7"
| "stage END = 0"

definition session_ok :: "bot \<Rightarrow> bool" where
  "session_ok b =
     (stage (state b) = 0 \<or>
      (\<exists>u. user_data b = Some u \<and> nonempty (name u)
         \<and> (2 \<le> stage (state b) \<longrightarrow> nonempty (function_key u))
         \<and> (3 \<le> stage (state b) \<longrightarrow> nonempty (company u))
         \<and> (4 \<le> stage (state b) \<longrightarrow> nonempty (location u))
         \<and> (5 \<le> stage (state b) \<longrightarrow> parsed_hours (hours_worked u))
         \<and> (6 \<le> stage (state b) \<longrightarrow> nonempty (update_text u))
         \<and> (7 \<le> stage (state b) \<longrightarrow> nonempty (planning u))))"

definition bot_ok :: "bot \<Rightarrow> bool" where
  "bot_ok b = (session_ok b \<and> list_all committed_ok (db b))"

text \<open>No conversation running means no partial record left.\<close>

definition cleared_at_end :: "bot \<Rightarrow> bool" where
  "cleared_at_end b = (state b = END \<longrightarrow> user_data b = None)"

text \<open>
  Two bots that no run can tell apart by what it commits: equal, or both before the
  first answer of a conversation, with the same store.
\<close>

definition same_session :: "bot \<Rightarrow> bot \<Rightarrow> bool" where
  "same_session b1 b2 =
     (b1 = b2 \<or> (state b1 = state b2 \<and> (state b1 = END \<or> state b1 = NAME) \<and> db b1 = db b2))"

text \<open>A record the photo loop can caption.\<close>

definition has_photo :: "update_data \<Rightarrow> bool" where
  "has_photo u =
     (photo_id u \<noteq> None \<and> name u \<noteq> None \<and> company u \<noteq> None \<and> update_text u \<noteq> None)"

text \<open>Sample data for the concrete instances below.\<close>

definition sample_partial :: update_data where
  "sample_partial =
     \<lparr>name = Some ''Jan'', function_key = Some ''Mason'', company = Some ''Acme'',
      location = Some ''Roof'', hours_worked = None, update_text = None, planning = None,
      photo_id = None, date = None\<rparr>"

definition sample_update :: "datetime \<Rightarrow> update_data" where
  "sample_update t =
     \<lparr>name = Some ''Jan'', function_key = Some ''Mason'', company = Some ''Acme'',
      location = Some ''Roof'', hours_worked = Some (Finite (15 / 2)),
      update_text = Some ''Laid tiles'', planning = Some ''On track'',
      photo_id = Some ''large'', date = Some t\<rparr>"

definition sample_session :: "string \<Rightarrow> (datetime \<times> update) list" where
  "sample_session hours =
     [(1, Text ''Jan''), (2, Text ''Mason''), (3, Text ''Acme''), (4, Text ''Roof''),
      (5, Text hours), (6, Text ''Laid tiles''), (7, Text ''On track''),
      (8, Photo [''small'', ''large''])]"

section \<open>Properties of the conversation\<close>

lemmas handler_defs = start_update_def get_name_def get_function_def get_company_def
  get_location_def get_hours_def get_update_text_def get_planning_def get_photo_def cancel_def

lemmas dispatch_defs = handle_update_def conversation_handler_def states_def entry_points_def
  fallbacks_def text_filter_def photo_filter_def command_filter_def

lemmas float_defs = py_float_def replace_comma_def strip_def is_space_def is_digit_def
  parse_unsigned_def parse_number_def parse_exponent_def lower_def digits_val_def
  digit_val_def scale10_def

text \<open>
  Claim C1. Seven non-empty plain texts, the fifth of which \<open>float\<close> parses after the
  commas are replaced, followed by one photo message, fed to a conversation that waits
  for the name: the states passed are \<open>FUNCTION\<close>, \<open>COMPANY\<close>, \<open>LOCATION\<close>,
  \<open>HOURS_WORKED\<close>, \<open>UPDATE_TEXT\<close>, \<open>PLANNING\<close>, \<open>PHOTO\<close> and then \<open>END\<close>, once; the
  store is untouched until the last message and then grows by exactly one record, which
  holds the six texts as they were typed, the parsed hours, the file id of the last photo
  size and the time of the commit.
\<close>

theorem complete_session_commits_once:
  assumes "t1 \<noteq> []" "t2 \<noteq> []" "t3 \<noteq> []" "t4 \<noteq> []" "t5 \<noteq> []" "t6 \<noteq> []" "t7 \<noteq> []"
    and "py_float (replace_comma t5) = Some h"
    and "ids \<noteq> []"
  shows "map (\<lambda>r. (state (fst r), db (fst r)))
           (trace [(n1, Text t1), (n2, Text t2), (n3, Text t3), (n4, Text t4), (n5, Text t5),
                   (n6, Text t6), (n7, Text t7), (n8, Photo ids)]
              \<lparr>state = NAME, user_data = ud, db = d\<rparr>)
         = [(FUNCTION, d), (COMPANY, d), (LOCATION, d), (HOURS_WORKED, d), (UPDATE_TEXT, d),
            (PLANNING, d), (PHOTO, d),
            (END, d @ [\<lparr>name = Some t1, function_key = Some t2, company = Some t3,
                        location = Some t4, hours_worked = Some h, update_text = Some t6,
                        planning = Some t7, photo_id = Some (last ids), date = Some n8\<rparr>])]
       \<and> run [(n1, Text t1), (n2, Text t2), (n3, Text t3), (n4, Text t4), (n5, Text t5),
                   (n6, Text t6), (n7, Text t7), (n8, Photo ids)]
              \<lparr>state = NAME, user_data = ud, db = d\<rparr>
         = \<lparr>state = END, user_data = None,
            db = d @ [\<lparr>name = Some t1, function_key = Some t2, company = Some t3,
                        location = Some t4, hours_worked = Some h, update_text = Some t6,
                        planning = Some t7, photo_id = Some (last ids), date = Some n8\<rparr>]\<rparr>"
  using assms by (simp add: handler_defs dispatch_defs)

theorem complete_session_commits_once_witness:
  "py_float (replace_comma ''7,5'') = Some (Finite (15 / 2))
   \<and> run [(1, Text ''Jan''), (2, Text ''Mason''), (3, Text ''Acme''), (4, Text ''Roof''),
           (5, Text ''7,5''), (6, Text ''Laid tiles''), (7, Text ''On track''),
           (8, Photo [''small'', ''large''])]
        \<lparr>state = NAME, user_data = None, db = []\<rparr>
      = \<lparr>state = END, user_data = None,
         db = [\<lparr>name = Some ''Jan'', function_key = Some ''Mason'', company = Some ''Acme'',
                 location = Some ''Roof'', hours_worked = Some (Finite (15 / 2)),
                 update_text = Some ''Laid tiles'', planning = Some ''On track'',
                 photo_id = Some ''large'', date = Some 8\<rparr>]\<rparr>"
proof -
  have h: "py_float (replace_comma ''7,5'') = Some (Finite (15 / 2))"
    by (simp add: float_defs)
  show ?thesis
    using h complete_session_commits_once [of "''Jan''" "''Mason''" "''Acme''" "''Roof''" "''7,5''"
        "''Laid tiles''" "''On track''" "Finite (15 / 2)" "[''small'', ''large'']"
        1 2 3 4 5 6 7 8 None "[]"]
    by simp
qed

subsection \<open>The hours prompt\<close>

text \<open>
  Claim C2, as amended. A non-empty plain text arriving in \<open>HOURS_WORKED\<close> is accepted
  exactly when \<open>float\<close> parses it after every comma is replaced by a point, whatever the
  sign of the value. When it does not parse, the conversation stays in \<open>HOURS_WORKED\<close>,
  the second prompt is sent and the bot, its partial record included, is unchanged. When it
  parses, the value is stored and the conversation moves to \<open>UPDATE_TEXT\<close>. In
  particular \<open>abc\<close> followed by \<open>7,5\<close> stores 7.5.
\<close>

theorem hours_accepted_iff_float_parses:
  assumes "t \<noteq> []"
  shows "(py_float (replace_comma t) = None \<longrightarrow>
            handle_update now (Text t) \<lparr>state = HOURS_WORKED, user_data = ud, db = d\<rparr>
            = (\<lparr>state = HOURS_WORKED, user_data = ud, db = d\<rparr>,
               [ReplyText ''That doesn't look like a valid number. Please enter the hours again.'']))
       \<and> (\<forall>h. py_float (replace_comma t) = Some h \<longrightarrow>
            handle_update now (Text t) \<lparr>state = HOURS_WORKED, user_data = Some u, db = d\<rparr>
            = (\<lparr>state = UPDATE_TEXT, user_data = Some (u\<lparr>hours_worked := Some h\<rparr>), db = d\<rparr>,
               [ReplyText ''Thanks. Please describe the work you completed today.'']))
       \<and> run [(n1, Text ''abc'')] \<lparr>state = HOURS_WORKED, user_data = Some u, db = d\<rparr>
          = \<lparr>state = HOURS_WORKED, user_data = Some u, db = d\<rparr>
       \<and> run [(n1, Text ''abc''), (n2, Text ''7,5'')]
            \<lparr>state = HOURS_WORKED, user_data = Some u, db = d\<rparr>
          = \<lparr>state = UPDATE_TEXT, user_data = Some (u\<lparr>hours_worked := Some (Finite (15 / 2))\<rparr>),
             db = d\<rparr>"
proof -
  have abc: "py_float (replace_comma ''abc'') = None"
    by (simp add: float_defs)
  have v: "py_float (replace_comma ''7,5'') = Some (Finite (15 / 2))"
    by (simp add: float_defs)
  show ?thesis
    using assms abc v by (simp add: handler_defs dispatch_defs)
qed

theorem hours_accepted_iff_float_parses_witness:
  "handle_update 5 (Text ''abc'') \<lparr>state = HOURS_WORKED, user_data = Some sample_partial, db = []\<rparr>
   = (\<lparr>state = HOURS_WORKED, user_data = Some sample_partial, db = []\<rparr>,
      [ReplyText ''That doesn't look like a valid number. Please enter the hours again.''])
   \<and> handle_update 5 (Text ''7,5'') \<lparr>state = HOURS_WORKED, user_data = Some sample_partial, db = []\<rparr>
   = (\<lparr>state = UPDATE_TEXT,
       user_data = Some (sample_partial\<lparr>hours_worked := Some (Finite (15 / 2))\<rparr>), db = []\<rparr>,
      [ReplyText ''Thanks. Please describe the work you completed today.''])"
proof -
  have abc: "py_float (replace_comma ''abc'') = None"
    by (simp add: float_defs)
  have v: "py_float (replace_comma ''7,5'') = Some (Finite (15 / 2))"
    by (simp add: float_defs)
  show ?thesis
    using abc v
      hours_accepted_iff_float_parses [where t = "''abc''" and now = 5
        and ud = "Some sample_partial" and d = "[]" and u = sample_partial]
      hours_accepted_iff_float_parses [where t = "''7,5''" and now = 5
        and ud = "Some sample_partial" and d = "[]" and u = sample_partial]
    by simp
qed

text \<open>
  Claim C2 as stated fails: the text \<open>-5\<close> parses, so it is accepted and stored, and the
  stored value is negative.
\<close>

theorem negative_hours_accepted_counterexample:
  "handle_update 5 (Text ''-5'') \<lparr>state = HOURS_WORKED, user_data = Some sample_partial, db = []\<rparr>
   = (\<lparr>state = UPDATE_TEXT,
       user_data = Some (sample_partial\<lparr>hours_worked := Some (Finite (- 5))\<rparr>), db = []\<rparr>,
      [ReplyText ''Thanks. Please describe the work you completed today.''])
   \<and> \<not> nonneg (Finite (- 5))"
  by (simp add: handler_defs dispatch_defs float_defs)

subsection \<open>Cancelling\<close>

lemma run_append: "run (xs @ ys) b = run ys (run xs b)"
  by (induction xs arbitrary: b) simp_all

lemma no_photo_keeps_db:
  "photo_filter upd = None \<Longrightarrow> db (fst (handle_update now upd b)) = db b"
  by (cases "state b"; cases upd)
     (auto simp: handler_defs dispatch_defs split: option.splits if_splits)

lemma no_photos_keep_db:
  "list_all (\<lambda>i. photo_filter (snd i) = None) ins \<Longrightarrow> db (run ins b) = db b"
  by (induction ins arbitrary: b) (simp_all add: no_photo_keeps_db)

lemma cleared_at_end_step:
  "cleared_at_end b \<Longrightarrow> cleared_at_end (fst (handle_update now upd b))"
  by (cases "state b"; cases upd)
     (auto simp: cleared_at_end_def handler_defs dispatch_defs split: option.splits if_splits)

lemma cleared_at_end_run: "cleared_at_end b \<Longrightarrow> cleared_at_end (run ins b)"
  by (induction ins arbitrary: b) (simp_all add: cleared_at_end_step)

lemma cancel_step:
  "cleared_at_end b \<Longrightarrow>
   fst (handle_update now (Command ''cancel'') b) = \<lparr>state = END, user_data = None, db = db b\<rparr>"
  by (cases "state b") (simp_all add: cleared_at_end_def handler_defs dispatch_defs)

text \<open>
  Claim C3. In every state but \<open>END\<close> and with any partial record, the command
  \<open>cancel\<close> ends the conversation, drops the partial record, sends the acknowledgement
  and leaves the store as it was. A session that is cancelled before any photo message
  arrived, whatever else was sent in it, ends with the store it started with.
\<close>

theorem cancel_discards_session:
  assumes "st \<noteq> END"
  shows "handle_update now (Command ''cancel'') \<lparr>state = st, user_data = ud, db = d\<rparr>
         = (\<lparr>state = END, user_data = None, db = d\<rparr>,
            [ReplyText ''Update cancelled. You can start a new one with /update.''])
       \<and> (list_all (\<lambda>i. photo_filter (snd i) = None) ins \<longrightarrow>
            run (ins @ [(now, Command ''cancel'')]) \<lparr>state = st, user_data = ud, db = d\<rparr>
            = \<lparr>state = END, user_data = None, db = d\<rparr>)"
proof
  show "handle_update now (Command ''cancel'') \<lparr>state = st, user_data = ud, db = d\<rparr>
         = (\<lparr>state = END, user_data = None, db = d\<rparr>,
            [ReplyText ''Update cancelled. You can start a new one with /update.''])"
    using assms by (cases st) (simp_all add: handler_defs dispatch_defs)
next
  let ?b = "\<lparr>state = st, user_data = ud, db = d\<rparr>"
  show "list_all (\<lambda>i. photo_filter (snd i) = None) ins \<longrightarrow>
            run (ins @ [(now, Command ''cancel'')]) ?b = \<lparr>state = END, user_data = None, db = d\<rparr>"
  proof
    assume np: "list_all (\<lambda>i. photo_filter (snd i) = None) ins"
    have "cleared_at_end ?b" using assms by (simp add: cleared_at_end_def)
    then have c: "cleared_at_end (run ins ?b)" by (rule cleared_at_end_run)
    have "db (run ins ?b) = d" using np by (simp add: no_photos_keep_db)
    with cancel_step [OF c, of now] show
      "run (ins @ [(now, Command ''cancel'')]) ?b = \<lparr>state = END, user_data = None, db = d\<rparr>"
      by (simp add: run_append)
  qed
qed

theorem cancel_discards_session_witness:
  "LOCATION \<noteq> END
   \<and> list_all (\<lambda>i. photo_filter (snd i) = None) [(4, Text ''Roof''), (5, Text ''abc'')]
   \<and> handle_update 6 (Command ''cancel'')
        \<lparr>state = LOCATION, user_data = Some sample_partial, db = [sample_update 0]\<rparr>
      = (\<lparr>state = END, user_data = None, db = [sample_update 0]\<rparr>,
         [ReplyText ''Update cancelled. You can start a new one with /update.''])
   \<and> run ([(4, Text ''Roof''), (5, Text ''abc'')] @ [(6, Command ''cancel'')])
        \<lparr>state = LOCATION, user_data = Some sample_partial, db = [sample_update 0]\<rparr>
      = \<lparr>state = END, user_data = None, db = [sample_update 0]\<rparr>"
  using cancel_discards_session [where st = LOCATION and now = 6 and ud = "Some sample_partial"
      and d = "[sample_update 0]" and ins = "[(4, Text ''Roof''), (5, Text ''abc'')]"]
  by (simp add: photo_filter_def)

subsection \<open>What is committed\<close>

lemma parsed_hoursI:
  "s \<noteq> [] \<Longrightarrow> py_float (replace_comma s) = Some v \<Longrightarrow> parsed_hours (Some v)"
  unfolding parsed_hours_def by (intro exI [of _ s]) simp

lemma bot_ok_step: "bot_ok b \<Longrightarrow> bot_ok (fst (handle_update now upd b))"
  by (cases "state b"; cases upd)
     (auto simp: bot_ok_def session_ok_def committed_ok_def handler_defs dispatch_defs
           intro: parsed_hoursI split: option.splits if_splits)

lemma bot_ok_run: "bot_ok b \<Longrightarrow> bot_ok (run ins b)"
  by (induction ins arbitrary: b) (simp_all add: bot_ok_step)

text \<open>
  Claim C9, as amended. Whatever messages arrive, every record in the store of a bot
  that started with no conversation and an empty store holds a non-empty name, function,
  company, location, task description and planning note, an hours value that \<open>float\<close>
  returned for a typed text (of either sign), one photo reference and the commit time.
\<close>

theorem committed_records_complete:
  "list_all committed_ok (db (run ins \<lparr>state = END, user_data = None, db = []\<rparr>))"
proof -
  have "bot_ok \<lparr>state = END, user_data = None, db = []\<rparr>"
    by (simp add: bot_ok_def session_ok_def)
  then have "bot_ok (run ins \<lparr>state = END, user_data = None, db = []\<rparr>)"
    by (rule bot_ok_run)
  then show ?thesis by (simp add: bot_ok_def)
qed

theorem committed_records_complete_witness:
  "db (run ((0, Command ''update'') # sample_session ''7,5'')
         \<lparr>state = END, user_data = None, db = []\<rparr>) = [sample_update 8]
   \<and> list_all committed_ok
        (db (run ((0, Command ''update'') # sample_session ''7,5'')
               \<lparr>state = END, user_data = None, db = []\<rparr>))"
  using committed_records_complete [of "(0, Command ''update'') # sample_session ''7,5''"]
  by (simp add: sample_session_def sample_update_def handler_defs dispatch_defs float_defs)

text \<open>
  Claim C9 as stated fails: a session that answers the hours prompt with \<open>-5\<close> commits
  a record whose hours are negative.
\<close>

theorem negative_hours_committed_counterexample:
  "db (run ((0, Command ''update'') # sample_session ''-5'')
         \<lparr>state = END, user_data = None, db = []\<rparr>)
   = [(sample_update 8)\<lparr>hours_worked := Some (Finite (- 5))\<rparr>]
   \<and> \<not> nonneg (Finite (- 5))"
  by (simp add: sample_session_def sample_update_def handler_defs dispatch_defs float_defs)

subsection \<open>A new session starts from nothing\<close>

lemma same_session_step:
  "same_session b1 b2 \<Longrightarrow>
   same_session (fst (handle_update now upd b1)) (fst (handle_update now upd b2))
   \<and> snd (handle_update now upd b1) = snd (handle_update now upd b2)"
  by (cases "state b1"; cases upd)
     (auto simp: same_session_def handler_defs dispatch_defs split: option.splits if_splits)

lemma same_session_run:
  "same_session b1 b2 \<Longrightarrow> same_session (run ins b1) (run ins b2)
     \<and> map snd (trace ins b1) = map snd (trace ins b2)"
  by (induction ins arbitrary: b1 b2) (simp_all add: same_session_step)

text \<open>
  Claim C10. The first answer of a conversation replaces whatever partial record the user
  had by a record that holds the new name and nothing else. Hence, from a bot with no
  conversation running or one waiting for the name, what a run commits and what it
  replies do not depend on the partial record left by earlier sessions.
\<close>

theorem new_session_starts_fresh:
  assumes "st = END \<or> st = NAME"
  shows "(t \<noteq> [] \<longrightarrow>
           handle_update now (Text t) \<lparr>state = NAME, user_data = uda, db = d\<rparr>
           = (\<lparr>state = FUNCTION,
               user_data = Some \<lparr>name = Some t, function_key = None, company = None,
                 location = None, hours_worked = None, update_text = None, planning = None,
                 photo_id = None, date = None\<rparr>,
               db = d\<rparr>,
              [ReplyText ''Got it. What is your function or role? (e.g., Electrician, Plumber)'']))
       \<and> db (run ins \<lparr>state = st, user_data = uda, db = d\<rparr>)
         = db (run ins \<lparr>state = st, user_data = udb, db = d\<rparr>)
       \<and> map snd (trace ins \<lparr>state = st, user_data = uda, db = d\<rparr>)
         = map snd (trace ins \<lparr>state = st, user_data = udb, db = d\<rparr>)"
proof -
  have "same_session \<lparr>state = st, user_data = uda, db = d\<rparr> \<lparr>state = st, user_data = udb, db = d\<rparr>"
    using assms by (auto simp: same_session_def)
  from same_session_run [OF this, of ins]
  have "db (run ins \<lparr>state = st, user_data = uda, db = d\<rparr>)
         = db (run ins \<lparr>state = st, user_data = udb, db = d\<rparr>)"
    and "map snd (trace ins \<lparr>state = st, user_data = uda, db = d\<rparr>)
         = map snd (trace ins \<lparr>state = st, user_data = udb, db = d\<rparr>)"
    by (auto simp: same_session_def)
  then show ?thesis
    by (simp add: handler_defs dispatch_defs)
qed

theorem new_session_starts_fresh_witness:
  "(NAME = END \<or> NAME = NAME)
   \<and> db (run (sample_session ''7,5'')
           \<lparr>state = NAME,
            user_data = Some \<lparr>name = Some ''Piet'', function_key = Some ''Plumber'',
              company = Some ''Other'', location = Some ''Cellar'',
              hours_worked = Some (Finite 3), update_text = Some ''Old'',
              planning = Some ''Stale'', photo_id = Some ''old'', date = Some 0\<rparr>,
            db = []\<rparr>)
     = [sample_update 8]"
  using new_session_starts_fresh [where st = NAME and ins = "sample_session ''7,5''"
      and uda = "Some \<lparr>name = Some ''Piet'', function_key = Some ''Plumber'',
              company = Some ''Other'', location = Some ''Cellar'',
              hours_worked = Some (Finite 3), update_text = Some ''Old'',
              planning = Some ''Stale'', photo_id = Some ''old'', date = Some 0\<rparr>"
      and udb = None and d = "[]"]
  by (simp add: sample_session_def sample_update_def handler_defs dispatch_defs float_defs)

section \<open>Properties of the reports\<close>

text \<open>
  Claim C4. When the list comprehension of \<open>daily_report\<close> (of \<open>weekly_report\<close>)
  selects nothing, the handler sends its one "nothing to report" reply and returns: the
  generative model is not called, no media group is sent, the bot is unchanged.
\<close>

theorem empty_window_short_circuits:
  "(todays_updates now (db b) = Inr [] \<longrightarrow>
      daily_report generate str_float now b
      = (b, [ReplyText ''No updates were logged today. Nothing to report.'']))
   \<and> (weekly_updates now (db b) = Inr [] \<longrightarrow>
      weekly_report generate str_float now b
      = (b, [ReplyText ''No updates were logged in the last 7 days.'']))"
  by (simp add: daily_report_def weekly_report_def)

theorem empty_window_short_circuits_witness:
  "todays_updates 864000000000 [sample_update 8] = Inr []
   \<and> weekly_updates 864000000000 [sample_update 8] = Inr []
   \<and> daily_report (\<lambda>p. Inr ''report'') (\<lambda>h. ''7.5'') 864000000000
        \<lparr>state = END, user_data = None, db = [sample_update 8]\<rparr>
      = (\<lparr>state = END, user_data = None, db = [sample_update 8]\<rparr>,
         [ReplyText ''No updates were logged today. Nothing to report.''])
   \<and> weekly_report (\<lambda>p. Inr ''report'') (\<lambda>h. ''7.5'') 864000000000
        \<lparr>state = END, user_data = None, db = [sample_update 8]\<rparr>
      = (\<lparr>state = END, user_data = None, db = [sample_update 8]\<rparr>,
         [ReplyText ''No updates were logged in the last 7 days.''])"
proof -
  have d: "todays_updates 864000000000 [sample_update 8] = Inr []"
    by (simp add: todays_updates_def sample_update_def date_of_def day_us_def)
  have w: "weekly_updates 864000000000 [sample_update 8] = Inr []"
    by (simp add: weekly_updates_def sample_update_def timedelta_days_def day_us_def)
  show ?thesis
    using d w
      empty_window_short_circuits [where now = 864000000000
        and b = "\<lparr>state = END, user_data = None, db = [sample_update 8]\<rparr>"
        and generate = "\<lambda>p. Inr ''report''" and str_float = "\<lambda>h. ''7.5''"]
    by simp
qed

text \<open>
  Claim C5. When the call of the generative model raises for the prompt built from a
  non-empty selection, the handler has sent the progress notice, logs the error and sends
  the one "try again later" reply: no report header, no report body, no media group. The
  two report commands return the bot as it was.
\<close>

theorem generation_failure_reported_once:
  assumes "us \<noteq> []"
    and "generate (build_prompt str_float us rt) = Inl e"
  shows "generate_and_send_report generate str_float us rt
         = [ReplyText (''Generating the '' @ rt @ '' Report... The AI is thinking, this may take a moment.''),
            GenerateContent (build_prompt str_float us rt),
            LogError (''Error generating AI report: '' @ e),
            ReplyText ''Sorry, there was an error while generating the AI report. Please try again later.'']
       \<and> (todays_updates now (db b) = Inr us \<and> rt = ''Daily'' \<longrightarrow>
            daily_report generate str_float now b
            = (b, generate_and_send_report generate str_float us rt))
       \<and> (weekly_updates now (db b) = Inr us \<and> rt = ''Weekly'' \<longrightarrow>
            weekly_report generate str_float now b
            = (b, generate_and_send_report generate str_float us rt))"
  using assms by (simp add: generate_and_send_report_def daily_report_def weekly_report_def)

theorem generation_failure_reported_once_witness:
  "todays_updates 9 [sample_update 8] = Inr [sample_update 8]
   \<and> daily_report (\<lambda>p. Inl ''timeout'') (\<lambda>h. ''7.5'') 9
        \<lparr>state = END, user_data = None, db = [sample_update 8]\<rparr>
      = (\<lparr>state = END, user_data = None, db = [sample_update 8]\<rparr>,
         [ReplyText ''Generating the Daily Report... The AI is thinking, this may take a moment.'',
          GenerateContent (build_prompt (\<lambda>h. ''7.5'') [sample_update 8] ''Daily''),
          LogError ''Error generating AI report: timeout'',
          ReplyText ''Sorry, there was an error while generating the AI report. Please try again later.''])"
proof -
  have d: "todays_updates 9 [sample_update 8] = Inr [sample_update 8]"
    by (simp add: todays_updates_def sample_update_def date_of_def day_us_def)
  show ?thesis
    using d
      generation_failure_reported_once [where us = "[sample_update 8]"
        and generate = "\<lambda>p. Inl ''timeout''" and str_float = "\<lambda>h. ''7.5''" and rt = "''Daily''"
        and e = "''timeout''" and now = 9
        and b = "\<lparr>state = END, user_data = None, db = [sample_update 8]\<rparr>"]
    by simp
qed

subsection \<open>The media group\<close>

lemma chunk_count_step:
  assumes "i < (n::nat)"
  shows "Suc ((n - (i + 10) + 9) div 10) = (n - i + 9) div 10"
proof (cases "i + 10 \<le> n")
  case True
  define m where "m = n - (i + 10) + 9"
  from True have e: "n - i + 9 = m + 10" by (simp add: m_def)
  have "(m + 10) div 10 = Suc (m div 10)" by simp
  with e show ?thesis by (simp only: m_def [symmetric])
next
  case False
  with assms have a: "n - (i + 10) = 0" and b: "10 \<le> n - i + 9" and c: "n - i + 9 < 20"
    by simp_all
  have "(n - i + 9) div 10 = 1"
    by (rule div_nat_eqI) (use b c in simp_all)
  with a show ?thesis by simp
qed

lemma concat_send_chunks: "concat (send_chunks i mg) = drop i mg"
proof (induction i mg rule: send_chunks.induct)
  case (1 i mg)
  show ?case
  proof (cases "i < length mg")
    case True
    have "concat (send_chunks i mg) = take 10 (drop i mg) @ concat (send_chunks (i + 10) mg)"
      using True by (subst send_chunks.simps) simp
    also have "\<dots> = take 10 (drop i mg) @ drop 10 (drop i mg)"
      using 1 True by (simp add: add.commute)
    also have "\<dots> = drop i mg" by (rule append_take_drop_id)
    finally show ?thesis .
  next
    case False
    then show ?thesis by (subst send_chunks.simps) simp
  qed
qed

lemma length_send_chunks: "length (send_chunks i mg) = (length mg - i + 9) div 10"
proof (induction i mg rule: send_chunks.induct)
  case (1 i mg)
  show ?case
  proof (cases "i < length mg")
    case True
    have "length (send_chunks i mg) = Suc (length (send_chunks (i + 10) mg))"
      using True by (subst send_chunks.simps) simp
    also have "\<dots> = Suc ((length mg - (i + 10) + 9) div 10)"
      using 1 True by simp
    also have "\<dots> = (length mg - i + 9) div 10"
      using True by (rule chunk_count_step)
    finally show ?thesis .
  next
    case False
    then show ?thesis by (subst send_chunks.simps) simp
  qed
qed

lemma size_send_chunks: "c \<in> set (send_chunks i mg) \<Longrightarrow> length c \<le> 10"
proof (induction i mg rule: send_chunks.induct)
  case (1 i mg)
  show ?case
  proof (cases "i < length mg")
    case True
    from "1.prems" True have "c = take 10 (drop i mg) \<or> c \<in> set (send_chunks (i + 10) mg)"
      by (subst (asm) send_chunks.simps) simp
    with "1.IH" True show ?thesis by auto
  next
    case False
    with "1.prems" show ?thesis by (subst (asm) send_chunks.simps) simp
  qed
qed

text \<open>
  The lemmas above say that the chunking loop is right on every media group. It is
  never reached with a non-empty one: the first record with a photo reference ends the handler.
\<close>

lemma media_group_of_raises:
  "us \<noteq> [] \<Longrightarrow> list_all has_photo us \<Longrightarrow> media_group_of us = Inl TypeError"
  by (cases us) (auto simp: has_photo_def input_media_photo_def)

lemma send_photos_raises:
  "us \<noteq> [] \<Longrightarrow> list_all has_photo us \<Longrightarrow>
   send_photos us = [ReplyMarkdown ''*Submitted Photos for this period:*'', Unhandled TypeError]"
  by (simp add: send_photos_def media_group_of_raises)

text \<open>
  Claim C6 does not hold of the code. For a selection of 11 records that all carry a photo
  reference, a report whose text was generated is followed by the photo header and then by
  the \<open>TypeError\<close> of the first \<open>InputMediaPhoto\<close> call: no media group is built and
  \<open>send_media_group\<close> is not called once, where the claim asks for two calls with 10 and
  1 items.
\<close>

theorem media_batch_never_sent:
  "generate_and_send_report (\<lambda>p. Inr ''report'') (\<lambda>h. ''7.5'')
     (replicate 11 (sample_update 8)) ''Daily''
   = [ReplyText ''Generating the Daily Report... The AI is thinking, this may take a moment.'',
      GenerateContent (build_prompt (\<lambda>h. ''7.5'') (replicate 11 (sample_update 8)) ''Daily''),
      ReplyMarkdown ''--- *Daily Report* ---'',
      ReplyMarkdown ''report'',
      ReplyMarkdown ''*Submitted Photos for this period:*'',
      Unhandled TypeError]"
proof -
  have ne: "replicate 11 (sample_update 8) \<noteq> []" by simp
  have hp: "list_all has_photo (replicate 11 (sample_update 8))"
    by (simp add: list_all_iff has_photo_def sample_update_def)
  show ?thesis
    by (simp add: generate_and_send_report_def send_photos_raises [OF ne hp])
qed

text \<open>
  Claim C7 does not hold of the code. For the record with the name \<open>Jan\<close>, the company
  \<open>Acme\<close> and a task description of 2000 characters, the text handed to the constructor
  as caption has exactly 1024 characters and starts with \<open>Jan (Acme) - \<close>, but the
  constructor call raises \<open>TypeError\<close>, so the record never gets a media item and no
  caption is sent.
\<close>

theorem caption_item_never_built:
  "media_group_of [(sample_update 8)\<lparr>update_text := Some (replicate 2000 CHR ''x'')\<rparr>]
   = Inl TypeError
   \<and> input_media_photo ''large''
        (take 1024 (caption_of ''Jan'' ''Acme'' (replicate 2000 CHR ''x''))) = Inl TypeError
   \<and> length (take 1024 (caption_of ''Jan'' ''Acme'' (replicate 2000 CHR ''x''))) = 1024
   \<and> take 13 (take 1024 (caption_of ''Jan'' ''Acme'' (replicate 2000 CHR ''x'')))
     = ''Jan (Acme) - ''"
  by (simp add: sample_update_def input_media_photo_def caption_of_def)

subsection \<open>The windows\<close>

lemma select_updates_filter:
  "list_all (\<lambda>u. date u \<noteq> None) us \<Longrightarrow>
   select_updates p us = Inr (filter (\<lambda>u. case date u of None \<Rightarrow> False | Some d \<Rightarrow> p d) us)"
  by (induction us) auto

text \<open>
  Claim C8. On a store whose records all carry a date, the daily window is exactly the
  records whose date falls on the calendar day of \<open>now\<close>, and the weekly window exactly
  those dated at or after \<open>now\<close> minus seven days, both in the order of the store. A
  record of one minute past midnight today is in the daily window, one of one minute
  before midnight is not; a record of six days ago is in the weekly window, one of eight
  days ago is not.
\<close>

theorem windows_select:
  assumes "list_all (\<lambda>u. date u \<noteq> None) us"
  shows "todays_updates now us
           = Inr (filter (\<lambda>u. case date u of None \<Rightarrow> False | Some d \<Rightarrow> date_of d = date_of now) us)
       \<and> weekly_updates now us
           = Inr (filter (\<lambda>u. case date u of None \<Rightarrow> False | Some d \<Rightarrow> now - 7 * day_us \<le> d) us)
       \<and> todays_updates now [r\<lparr>date := Some (date_of now * day_us + 60000000)\<rparr>]
           = Inr [r\<lparr>date := Some (date_of now * day_us + 60000000)\<rparr>]
       \<and> todays_updates now [r\<lparr>date := Some (date_of now * day_us - 60000000)\<rparr>] = Inr []
       \<and> weekly_updates now [r\<lparr>date := Some (now - 6 * day_us)\<rparr>]
           = Inr [r\<lparr>date := Some (now - 6 * day_us)\<rparr>]
       \<and> weekly_updates now [r\<lparr>date := Some (now - 8 * day_us)\<rparr>] = Inr []"
proof -
  have a: "(date_of now * day_us + 60000000) div day_us = date_of now"
    by (simp add: day_us_def date_of_def)
  have b: "(date_of now * day_us - 60000000) div day_us \<noteq> date_of now"
    by (simp add: day_us_def date_of_def)
  show ?thesis
    using assms a b
    by (simp add: todays_updates_def weekly_updates_def select_updates_filter timedelta_days_def)
       (simp add: date_of_def day_us_def)
qed

theorem windows_select_witness:
  "list_all (\<lambda>u. date u \<noteq> None) [sample_update 8, sample_update 864000000000]
   \<and> todays_updates 864000000060 [sample_update 8, sample_update 864000000000]
     = Inr [sample_update 864000000000]
   \<and> weekly_updates 864000000060 [sample_update 8, sample_update 864000000000]
     = Inr [sample_update 864000000000]"
proof -
  have h: "list_all (\<lambda>u. date u \<noteq> None) [sample_update 8, sample_update 864000000000]"
    by (simp add: sample_update_def)
  from windows_select [OF h, where now = 864000000060]
  show ?thesis
    using h by (simp add: sample_update_def date_of_def day_us_def)
qed

end
